theory Spec2Isabelle
  imports
    Main
    "HOL-Library.Word"
    "HOL-Library.Char_ord"
    "HOL-Library.List_Lexorder"
    "HOL-Library.AList"
begin

section \<open>The manifest, tag and catalog handlers of registry/manifest.go\<close>

text \<open>
  A shallow embedding of \<^verbatim>\<open>src/registry/manifest.go\<close>. Go strings are byte strings
  (\<open>string\<close>, compared bytewise), \<open>[]byte\<close> is a list of 8-bit words, \<open>int\<close> is the 64-bit
  integer of the usual targets. A run-time panic (index or slice bounds out of range) is
  the result \<open>Panic\<close>, so that every handler is a total function.
\<close>

subsection \<open>Go library functions used by the handlers\<close>

type_synonym byte = "8 word"

text \<open>\<^verbatim>\<open>strings.Split(s, sep)\<close> for a one-byte separator: always at least one piece.\<close>

fun Split :: "string \<Rightarrow> char \<Rightarrow> string list" where
  "Split [] sep = [[]]"
| "Split (c # cs) sep =
     (if c = sep then [] # Split cs sep
      else (case Split cs sep of [] \<Rightarrow> [[c]] | x # xs \<Rightarrow> (c # x) # xs))"

text \<open>\<^verbatim>\<open>strings.Join(elems, sep)\<close>.\<close>

fun Join :: "string list \<Rightarrow> string \<Rightarrow> string" where
  "Join [] sep = []"
| "Join [x] sep = x"
| "Join (x # y # ys) sep = x @ sep @ Join (y # ys) sep"

text \<open>\<^verbatim>\<open>strings.HasPrefix\<close> and \<^verbatim>\<open>strings.Contains\<close>.\<close>

fun HasPrefix :: "string \<Rightarrow> string \<Rightarrow> bool" where
  "HasPrefix s [] = True"
| "HasPrefix [] (p # ps) = False"
| "HasPrefix (c # cs) (p # ps) = (c = p \<and> HasPrefix cs ps)"

fun Contains :: "string \<Rightarrow> string \<Rightarrow> bool" where
  "Contains [] substr = (substr = [])"
| "Contains (c # cs) substr = (HasPrefix (c # cs) substr \<or> Contains cs substr)"

text \<open>
  Indexing \<^verbatim>\<open>xs[i]\<close> and slicing \<^verbatim>\<open>xs[lo:hi]\<close> with Go's bounds checks: \<open>None\<close> is the
  run-time panic.
\<close>

definition index :: "'a list \<Rightarrow> int \<Rightarrow> 'a option" where
  "index xs i = (if 0 \<le> i \<and> i < int (length xs) then Some (xs ! nat i) else None)"

definition subslice :: "'a list \<Rightarrow> int \<Rightarrow> int \<Rightarrow> 'a list option" where
  "subslice xs lo hi =
     (if 0 \<le> lo \<and> lo \<le> hi \<and> hi \<le> int (length xs)
      then Some (take (nat hi - nat lo) (drop (nat lo) xs)) else None)"

text \<open>
  \<^verbatim>\<open>strconv.Atoi\<close> at 64 bits, with its two paths. A string of 1 to 18 bytes takes
  the fast path: an optional sign, then digits only, and no overflow is possible. Every
  other string goes through \<^verbatim>\<open>ParseInt(s, 10, 0)\<close> and \<^verbatim>\<open>ParseUint\<close>. A syntax
  error returns 0 and a range error the nearest 64-bit bound, both with the error.
\<close>

datatype NumError = ErrSyntax | ErrRange

definition digit :: "char \<Rightarrow> nat option" where
  "digit ch = (let k = of_char ch :: nat in if 48 \<le> k \<and> k \<le> 57 then Some (k - 48) else None)"

definition maxUint64 :: nat where "maxUint64 = 2 ^ 64 - 1"
definition maxInt :: int where "maxInt = 2 ^ 63 - 1"
definition minInt :: int where "minInt = - (2 ^ 63)"

text \<open>
  The loop of \<^verbatim>\<open>ParseUint\<close> in base 10: each byte is first checked to be a digit,
  then \<open>n * 10\<close> and \<open>n * 10 + d\<close> are checked against the 64-bit range. The loop returns
  at the first failure, so digits that overflow give the range error before a later
  byte that is no digit is read.
\<close>

fun ParseUintLoop :: "string \<Rightarrow> nat \<Rightarrow> nat \<times> NumError option" where
  "ParseUintLoop [] n = (n, None)"
| "ParseUintLoop (c # s) n =
     (case digit c of
        None \<Rightarrow> (0, Some ErrSyntax)
      | Some d \<Rightarrow>
          if n \<ge> maxUint64 div 10 + 1 then (maxUint64, Some ErrRange)
          else if maxUint64 < n * 10 + d then (maxUint64, Some ErrRange)
          else ParseUintLoop s (n * 10 + d))"

definition ParseUint :: "string \<Rightarrow> nat \<times> NumError option" where
  "ParseUint s = (if s = [] then (0, Some ErrSyntax) else ParseUintLoop s 0)"

text \<open>
  \<^verbatim>\<open>ParseInt\<close>: the sign is picked off, a syntax error of \<^verbatim>\<open>ParseUint\<close> is returned
  with 0, and the unsigned value (the largest one after a range error) is checked against
  the signed range.
\<close>

definition ParseInt :: "string \<Rightarrow> int \<times> NumError option" where
  "ParseInt s =
     (if s = [] then (0, Some ErrSyntax)
      else
        (let neg = (hd s = CHR ''-'');
             s1 = (if hd s = CHR ''+'' \<or> hd s = CHR ''-'' then tl s else s);
             r = ParseUint s1;
             un = fst r
         in if snd r = Some ErrSyntax then (0, Some ErrSyntax)
            else if \<not> neg \<and> un \<ge> 2 ^ 63 then (maxInt, Some ErrRange)
            else if neg \<and> un > 2 ^ 63 then (minInt, Some ErrRange)
            else (if neg then - int un else int un, None)))"

text \<open>The loop of the fast path: \<open>None\<close> is its syntax error.\<close>

fun atoiLoop :: "string \<Rightarrow> int \<Rightarrow> int option" where
  "atoiLoop [] n = Some n"
| "atoiLoop (ch # s) n =
     (case digit ch of None \<Rightarrow> None | Some d \<Rightarrow> atoiLoop s (n * 10 + int d))"

definition Atoi :: "string \<Rightarrow> int \<times> NumError option" where
  "Atoi s =
     (if 0 < length s \<and> length s < 19 then
        (let s1 = (if hd s = CHR ''-'' \<or> hd s = CHR ''+'' then tl s else s)
         in if s1 = [] then (0, Some ErrSyntax)
            else (case atoiLoop s1 0 of
                    None \<Rightarrow> (0, Some ErrSyntax)
                  | Some n \<Rightarrow> (if hd s = CHR ''-'' then - n else n, None)))
      else ParseInt s)"

text \<open>\<^verbatim>\<open>fmt.Sprint\<close> of a length: its decimal digits.\<close>

fun Sprint :: "nat \<Rightarrow> string" where
  "Sprint n =
     (if n < 10 then [char_of (48 + n)] else Sprint (n div 10) @ [char_of (48 + n mod 10)])"

declare Sprint.simps [simp del]

text \<open>\<^verbatim>\<open>hex.EncodeToString\<close>: two lower-case hexadecimal digits for each byte.\<close>

definition hexdigit :: "nat \<Rightarrow> char" where
  "hexdigit k = ''0123456789abcdef'' ! k"

fun EncodeToString :: "byte list \<Rightarrow> string" where
  "EncodeToString [] = []"
| "EncodeToString (b # bs) =
     hexdigit (unat b div 16) # hexdigit (unat b mod 16) # EncodeToString bs"

subsection \<open>Data model\<close>

record Manifest =
  ContentType :: string
  Blob :: "byte list"
  Refs :: "string list"
  CreatedAt :: int

record Catalog =
  Repos :: "string list"

record listTags =
  Name :: string
  Tags :: "string list"

text \<open>
  Modelled from the spec: the type \<^verbatim>\<open>regError\<close> is declared outside
  \<^verbatim>\<open>manifest.go\<close>; the spec gives its shape: status, code and message.
\<close>

record regError =
  Status :: int
  Code :: string
  Message :: string

text \<open>
  A Go map is an association list with distinct keys; the order of the list is the order
  in which \<^verbatim>\<open>range\<close> visits the keys, which Go leaves unspecified. The inner maps
  of \<^verbatim>\<open>map[string]map[string]Manifest\<close> are objects shared by reference: the outer
  map holds a reference (\<open>None\<close> is the nil map, \<open>Some a\<close> the object at address \<open>a\<close>),
  and \<open>objects\<close> is the heap of inner map objects. \<open>registry\<close> is the state of the
  collaborator behind \<^verbatim>\<open>m.registry\<close>; \<open>prepared\<close> is a ghost log of the
  \<^verbatim>\<open>PrepareChart\<close> calls made by the handlers. The mutex is not modelled: a
  handler runs from \<^verbatim>\<open>Lock\<close> to \<^verbatim>\<open>Unlock\<close> without interleaving.
\<close>

type_synonym addr = nat
type_synonym mapref = "addr option"

record 'r Manifests =
  manifests :: "(string \<times> mapref) list"
  objects :: "(string \<times> Manifest) list list"
  registry :: 'r
  prepared :: "(string \<times> string \<times> string) list"

text \<open>The entries of the map behind a reference; a nil map has none.\<close>

definition deref :: "'r Manifests \<Rightarrow> mapref \<Rightarrow> (string \<times> Manifest) list" where
  "deref m c =
     (case c of None \<Rightarrow> []
      | Some a \<Rightarrow> if a < length (objects m) then objects m ! a else [])"

text \<open>\<^verbatim>\<open>ma, ok := c[target]\<close>.\<close>

definition lookup :: "'r Manifests \<Rightarrow> mapref \<Rightarrow> string \<Rightarrow> Manifest option" where
  "lookup m c target = map_of (deref m c) target"

text \<open>\<^verbatim>\<open>ma, ok := m.manifests[repo][target]\<close>: an absent repository yields the nil map.\<close>

definition lookup2 :: "'r Manifests \<Rightarrow> string \<Rightarrow> string \<Rightarrow> Manifest option" where
  "lookup2 m repo target =
     (case map_of (manifests m) repo of
        None \<Rightarrow> None
      | Some c \<Rightarrow> lookup m c target)"

record request =
  Method :: string
  Path :: string
  Query :: "(string \<times> string) list"

text \<open>\<^verbatim>\<open>req.URL.Query().Get(key)\<close>: the first value of the key, or the empty string.\<close>

definition Get :: "(string \<times> string) list \<Rightarrow> string \<Rightarrow> string" where
  "Get q key = (case map_of q key of None \<Rightarrow> [] | Some v \<Rightarrow> v)"

text \<open>
  The response as the handler leaves it: the headers set, the status written and the
  bytes copied to the body.
\<close>

record response =
  header :: "string \<rightharpoonup> string"
  statusCode :: "int option"
  body :: "byte list"

definition emptyResponse :: response where
  "emptyResponse = \<lparr>header = Map.empty, statusCode = None, body = []\<rparr>"

text \<open>
  What a handler does: it panics, it returns a \<^verbatim>\<open>*regError\<close>, or it returns nil
  after writing the response.
\<close>

datatype result = Panic | Fail regError | Done response

text \<open>
  The Chart Preparer (\<^verbatim>\<open>registry.PrepareChart\<close>) is not part of the file; it is a
  parameter: from namespace, name and reference, it changes the store and returns an
  error or nil.
\<close>

type_synonym 'r preparer =
  "string \<Rightarrow> string \<Rightarrow> string \<Rightarrow> 'r Manifests \<Rightarrow> regError option \<times> 'r Manifests"

definition PrepareChart ::
  "'r preparer \<Rightarrow> string \<Rightarrow> string \<Rightarrow> string \<Rightarrow> 'r Manifests \<Rightarrow> regError option \<times> 'r Manifests"
where
  "PrepareChart P ns name ref m =
     (case P ns name ref m of
        (err, m') \<Rightarrow> (err, m'\<lparr>prepared := prepared m @ [(ns, name, ref)]\<rparr>))"

subsection \<open>Path classifier\<close>

definition isManifest :: "request \<Rightarrow> bool" where
  "isManifest req =
     (let elems = drop 1 (Split (Path req) CHR ''/'')
      in if length elems < 4 then False
         else elems ! (length elems - 2) = ''manifests'')"

definition isTags :: "request \<Rightarrow> bool" where
  "isTags req =
     (let elems = drop 1 (Split (Path req) CHR ''/'')
      in if length elems < 4 then False
         else elems ! (length elems - 2) = ''tags'')"

definition isCatalog :: "request \<Rightarrow> bool" where
  "isCatalog req =
     (let elems = drop 1 (Split (Path req) CHR ''/'')
      in if length elems < 2 then False
         else elems ! (length elems - 1) = ''_catalog'')"

subsection \<open>Errors and library parameters\<close>

definition invalidParams :: regError where
  "invalidParams =
     \<lparr>Status = 400, Code = ''INVALID PARAMS'', Message = ''No chart name specified''\<rparr>"

definition notFound :: regError where
  "notFound = \<lparr>Status = 404, Code = ''NOT FOUND'', Message = ''Chart prepare error''\<rparr>"

definition methodUnknown :: regError where
  "methodUnknown =
     \<lparr>Status = 400, Code = ''METHOD_UNKNOWN'',
      Message = ''We don'' @ [char_of (39 :: nat)] @ ''t understand your method + url''\<rparr>"

text \<open>
  The functions of Go's standard library whose text is outside the repository and whose
  result the handlers only pass on: \<^verbatim>\<open>sha256.Sum256\<close>, \<^verbatim>\<open>json.Marshal\<close> at the two
  types it is used at, and \<^verbatim>\<open>strconv.Quote\<close> (inside the text of an \<^verbatim>\<open>Atoi\<close> error).
  A Go slice is the list of its elements: a nil slice and an empty one are both \<open>[]\<close>.
\<close>

record golib =
  Sum256 :: "byte list \<Rightarrow> byte list"
  MarshalTags :: "listTags \<Rightarrow> byte list"
  MarshalCatalog :: "Catalog \<Rightarrow> byte list"
  Quote :: "string \<Rightarrow> string"

definition NumErrorText :: "golib \<Rightarrow> string \<Rightarrow> NumError \<Rightarrow> string" where
  "NumErrorText L num e =
     ''strconv.Atoi: parsing '' @ Quote L num @ '': '' @
     (case e of ErrSyntax \<Rightarrow> ''invalid syntax'' | ErrRange \<Rightarrow> ''value out of range'')"

subsection \<open>The manifest handler: \<^verbatim>\<open>Manifests.handle\<close>\<close>

text \<open>Lines 130 to 136: the response of the GET branch for the manifest found.\<close>

definition respondGET :: "golib \<Rightarrow> Manifest \<Rightarrow> response" where
  "respondGET L ma =
     (let rd = Sum256 L (Blob ma);
          d = ''sha256:'' @ EncodeToString rd
      in \<lparr>header = [''Docker-Content-Digest'' \<mapsto> d,
                    ''Content-Type'' \<mapsto> ContentType ma,
                    ''Content-Length'' \<mapsto> Sprint (length (Blob ma))],
          statusCode = Some 200,
          body = Blob ma\<rparr>)"

text \<open>Lines 171 to 176: the response of the HEAD branch; no body is written.\<close>

definition respondHEAD :: "golib \<Rightarrow> Manifest \<Rightarrow> response" where
  "respondHEAD L ma =
     (let rd = Sum256 L (Blob ma);
          d = ''sha256:'' @ EncodeToString rd
      in \<lparr>header = [''Docker-Content-Digest'' \<mapsto> d,
                    ''Content-Type'' \<mapsto> ContentType ma,
                    ''Content-Length'' \<mapsto> Sprint (length (Blob ma))],
          statusCode = Some 200,
          body = []\<rparr>)"

text \<open>
  Lines 114 to 137 of the GET branch. The variable \<open>c\<close> is the reference read at line 99
  (nil when the repository was absent); it is not read again after \<^verbatim>\<open>PrepareChart\<close>.
  \<^verbatim>\<open>hostnameParts[1]\<close> panics when the repository name has a single component.
\<close>

definition getTarget ::
  "'r preparer \<Rightarrow> golib \<Rightarrow> mapref \<Rightarrow> string list \<Rightarrow> string \<Rightarrow> 'r Manifests
   \<Rightarrow> result \<times> 'r Manifests"
where
  "getTarget P L c hostnameParts target m =
     (case lookup m c target of
        Some ma \<Rightarrow> (Done (respondGET L ma), m)
      | None \<Rightarrow>
          if length hostnameParts < 2 then (Panic, m)
          else
            (case PrepareChart P (hostnameParts ! 0) (hostnameParts ! 1) target m of
               (Some err, m1) \<Rightarrow> (Fail err, m1)
             | (None, m1) \<Rightarrow>
                 (case lookup m1 c target of
                    Some ma \<Rightarrow> (Done (respondGET L ma), m1)
                  | None \<Rightarrow> (Fail notFound, m1))))"

text \<open>Lines 96 to 137: the GET branch.\<close>

definition handleGET ::
  "'r preparer \<Rightarrow> golib \<Rightarrow> string \<Rightarrow> string list \<Rightarrow> string \<Rightarrow> 'r Manifests
   \<Rightarrow> result \<times> 'r Manifests"
where
  "handleGET P L repo hostnameParts target m =
     (case map_of (manifests m) repo of
        None \<Rightarrow>
          if length hostnameParts < 2 then (Fail invalidParams, m)
          else
            (case PrepareChart P (hostnameParts ! 0) (hostnameParts ! 1) target m of
               (Some err, m1) \<Rightarrow> (Fail err, m1)
             | (None, m1) \<Rightarrow> getTarget P L None hostnameParts target m1)
      | Some c \<Rightarrow> getTarget P L c hostnameParts target m)"

text \<open>
  Lines 155 to 177 of the HEAD branch: each lookup reads \<^verbatim>\<open>m.manifests[repo][target]\<close>
  from the store as it is then.
\<close>

definition headTarget ::
  "'r preparer \<Rightarrow> golib \<Rightarrow> string \<Rightarrow> string list \<Rightarrow> string \<Rightarrow> 'r Manifests
   \<Rightarrow> result \<times> 'r Manifests"
where
  "headTarget P L repo hostnameParts target m =
     (case lookup2 m repo target of
        Some ma \<Rightarrow> (Done (respondHEAD L ma), m)
      | None \<Rightarrow>
          if length hostnameParts < 2 then (Panic, m)
          else
            (case PrepareChart P (hostnameParts ! 0) (hostnameParts ! 1) target m of
               (Some err, m1) \<Rightarrow> (Fail err, m1)
             | (None, m1) \<Rightarrow>
                 (case lookup2 m1 repo target of
                    Some ma \<Rightarrow> (Done (respondHEAD L ma), m1)
                  | None \<Rightarrow> (Fail notFound, m1))))"

text \<open>Lines 140 to 177: the HEAD branch.\<close>

definition handleHEAD ::
  "'r preparer \<Rightarrow> golib \<Rightarrow> string \<Rightarrow> string list \<Rightarrow> string \<Rightarrow> 'r Manifests
   \<Rightarrow> result \<times> 'r Manifests"
where
  "handleHEAD P L repo hostnameParts target m =
     (case map_of (manifests m) repo of
        None \<Rightarrow>
          if length hostnameParts < 2 then (Fail invalidParams, m)
          else
            (case PrepareChart P (hostnameParts ! 0) (hostnameParts ! 1) target m of
               (Some err, m1) \<Rightarrow> (Fail err, m1)
             | (None, m1) \<Rightarrow> headTarget P L repo hostnameParts target m1)
      | Some c \<Rightarrow> headTarget P L repo hostnameParts target m)"

text \<open>
  Lines 88 to 92: the path is cut into the reference (last element) and the repository
  name (the elements between the first and the last two); both panic on a path that is
  too short.
\<close>

definition pathParts :: "string \<Rightarrow> (string \<times> string \<times> string list) option" where
  "pathParts path =
     (let elem = drop 1 (Split path CHR ''/'')
      in case index elem (int (length elem) - 1) of
           None \<Rightarrow> None
         | Some target \<Rightarrow>
             (case subslice elem 1 (int (length elem) - 2) of
                None \<Rightarrow> None
              | Some rs \<Rightarrow>
                  (let repo = Join rs ''/''
                   in Some (target, repo, Split repo CHR ''/''))))"

definition handle ::
  "'r preparer \<Rightarrow> golib \<Rightarrow> request \<Rightarrow> 'r Manifests \<Rightarrow> result \<times> 'r Manifests"
where
  "handle P L req m =
     (case pathParts (Path req) of
        None \<Rightarrow> (Panic, m)
      | Some (target, repo, hostnameParts) \<Rightarrow>
          if Method req = ''GET'' then handleGET P L repo hostnameParts target m
          else if Method req = ''HEAD'' then handleHEAD P L repo hostnameParts target m
          else (Fail methodUnknown, m))"

subsection \<open>The tag listing handler: \<^verbatim>\<open>Manifests.handleTags\<close>\<close>

text \<open>Lines 214 to 219: the keys without \<^verbatim>\<open>sha256:\<close>, in the order of the range.\<close>

fun tagsLoop :: "(string \<times> Manifest) list \<Rightarrow> string list \<Rightarrow> string list" where
  "tagsLoop [] tags = tags"
| "tagsLoop ((tag, ma) # c) tags =
     (if \<not> Contains tag ''sha256:'' then tagsLoop c (tags @ [tag]) else tagsLoop c tags)"

text \<open>
  Lines 225 to 230: the loop over the sorted tags; \<open>Some\<close> is the slice assigned before
  the \<^verbatim>\<open>break\<close>, \<open>None\<close> the loop running to its end without assigning.
\<close>

fun lastLoop :: "string \<Rightarrow> string list \<Rightarrow> string list option" where
  "lastLoop last' [] = None"
| "lastLoop last' (t # ts) = (if t > last' then Some (t # ts) else lastLoop last' ts)"

text \<open>Lines 246 to 255.\<close>

definition respondTags :: "golib \<Rightarrow> string \<Rightarrow> string list \<Rightarrow> response" where
  "respondTags L repo tags =
     (let tagsToList = \<lparr>Name = repo, Tags = tags\<rparr>;
          msg = MarshalTags L tagsToList
      in \<lparr>header = [''Content-Length'' \<mapsto> Sprint (length msg)],
          statusCode = Some 200,
          body = msg\<rparr>)"

text \<open>Lines 224 to 231: the offset by the \<^verbatim>\<open>last\<close> query parameter.\<close>

definition offsetTags :: "string \<Rightarrow> string list \<Rightarrow> string list" where
  "offsetTags last' tags =
     (if last' \<noteq> []
      then (case lastLoop last' tags of None \<Rightarrow> tags | Some ts \<Rightarrow> ts)
      else tags)"

text \<open>Lines 214 to 255, for the entries \<open>c\<close> of the repository's table.\<close>

definition listTagsOf ::
  "golib \<Rightarrow> string \<Rightarrow> (string \<times> string) list \<Rightarrow> (string \<times> Manifest) list \<Rightarrow> result"
where
  "listTagsOf L repo q c =
     (let tags = sort (tagsLoop c []);
          tags = offsetTags (Get q ''last'') tags;
          ns = Get q ''n''
      in if ns \<noteq> [] then
           (case Atoi ns of
              (n, Some err) \<Rightarrow>
                Fail \<lparr>Status = 400, Code = ''BAD_REQUEST'',
                      Message = ''parsing n: '' @ NumErrorText L ns err\<rparr>
            | (n, None) \<Rightarrow>
                if n < int (length tags)
                then (case subslice tags 0 n of
                        None \<Rightarrow> Panic
                      | Some ts \<Rightarrow> Done (respondTags L repo ts))
                else Done (respondTags L repo tags))
         else Done (respondTags L repo tags))"

text \<open>
  Lines 189 to 192: the repository name and its components; the slice panics on a path
  that is too short. \<^verbatim>\<open>hostnameParts[1]\<close> at line 198 is evaluated before the call,
  with no check of the length: it panics when the repository name has a single component.
\<close>

definition tagsPathParts :: "string \<Rightarrow> (string \<times> string list) option" where
  "tagsPathParts path =
     (let elem = drop 1 (Split path CHR ''/'')
      in case subslice elem 1 (int (length elem) - 2) of
           None \<Rightarrow> None
         | Some rs \<Rightarrow>
             (let repo = Join rs ''/''
              in Some (repo, Split repo CHR ''/'')))"

definition handleTags ::
  "'r preparer \<Rightarrow> golib \<Rightarrow> request \<Rightarrow> 'r Manifests \<Rightarrow> result \<times> 'r Manifests"
where
  "handleTags P L req m =
     (case tagsPathParts (Path req) of
        None \<Rightarrow> (Panic, m)
      | Some (repo, hostnameParts) \<Rightarrow>
          if Method req = ''GET'' then
            (if length hostnameParts < 2 then (Panic, m)
             else
               (case PrepareChart P (hostnameParts ! 0) (hostnameParts ! 1) [] m of
                  (Some err, m1) \<Rightarrow> (Fail err, m1)
                | (None, m1) \<Rightarrow>
                    (case map_of (manifests m1) repo of
                       None \<Rightarrow> (Fail notFound, m1)
                     | Some c \<Rightarrow> (listTagsOf L repo (Query req) (deref m1 c), m1))))
          else (Fail methodUnknown, m))"

subsection \<open>The catalog handler: \<^verbatim>\<open>Manifests.handleCatalog\<close>\<close>

text \<open>Lines 280 to 286: the range over the repository names, left at \<open>n\<close> names.\<close>

fun catalogLoop :: "int \<Rightarrow> string list \<Rightarrow> int \<Rightarrow> string list \<Rightarrow> string list" where
  "catalogLoop n [] countRepos repos = repos"
| "catalogLoop n (key # keys) countRepos repos =
     (if countRepos \<ge> n then repos
      else catalogLoop n keys (countRepos + 1) (repos @ [key]))"

text \<open>Lines 267 to 271: the limit; the error of \<^verbatim>\<open>Atoi\<close> is dropped.\<close>

definition catalogLimit :: "request \<Rightarrow> int" where
  "catalogLimit req =
     (let nStr = Get (Query req) ''n''
      in if nStr \<noteq> [] then fst (Atoi nStr) else 10000)"

text \<open>Lines 287 to 295.\<close>

definition respondCatalog :: "golib \<Rightarrow> string list \<Rightarrow> response" where
  "respondCatalog L repos =
     (let repositoriesToList = \<lparr>Repos = repos\<rparr>;
          msg = MarshalCatalog L repositoriesToList
      in \<lparr>header = [''Content-Length'' \<mapsto> Sprint (length msg)],
          statusCode = Some 200,
          body = msg\<rparr>)"

definition handleCatalog :: "golib \<Rightarrow> request \<Rightarrow> 'r Manifests \<Rightarrow> result \<times> 'r Manifests" where
  "handleCatalog L req m =
     (let n = catalogLimit req
      in if Method req = ''GET'' then
           (let repos = catalogLoop n (map fst (manifests m)) 0 []
            in (Done (respondCatalog L repos), m))
         else (Fail methodUnknown, m))"

subsection \<open>Collaborators for concrete runs\<close>

text \<open>
  A Chart Preparer that succeeds and stores the manifest \<open>ma\<close> under the reference asked
  for: in the repository's table when there is one, in a new table otherwise.
\<close>

definition storingPreparer :: "Manifest \<Rightarrow> 'r preparer" where
  "storingPreparer ma ns name ref m =
     (let repo = ns @ ''/'' @ name
      in case map_of (manifests m) repo of
           Some (Some a) \<Rightarrow>
             (None, m\<lparr>objects := (objects m)[a := AList.update ref ma (objects m ! a)]\<rparr>)
         | _ \<Rightarrow>
             (None, m\<lparr>manifests := AList.update repo (Some (length (objects m))) (manifests m),
                      objects := objects m @ [[(ref, ma)]]\<rparr>))"

text \<open>A Chart Preparer that reports success and stores nothing.\<close>

definition idlePreparer :: "'r preparer" where
  "idlePreparer ns name ref m = (None, m)"

text \<open>Stand-ins for the library functions, and an empty store.\<close>

definition testlib :: golib where
  "testlib =
     \<lparr>Sum256 = (\<lambda>bs. [of_nat (length bs)]),
      MarshalTags = (\<lambda>t. map of_char (Name t @ '':'' @ Join (Tags t) '','')),
      MarshalCatalog = (\<lambda>c. map of_char (Join (Repos c) '','')),
      Quote = (\<lambda>s. s)\<rparr>"

definition emptyStore :: "unit Manifests" where
  "emptyStore = \<lparr>manifests = [], objects = [], registry = (), prepared = []\<rparr>"

definition chart :: Manifest where
  "chart = \<lparr>ContentType = ''application/json'', Blob = [1, 2, 3], Refs = [], CreatedAt = 0\<rparr>"

text \<open>A store holding one repository with two tags and one digest key.\<close>

definition chartStore :: "unit Manifests" where
  "chartStore =
     \<lparr>manifests = [(''ns/chart'', Some 0)],
      objects = [[(''b'', chart), (''sha256:deadbeef'', chart), (''a'', chart)]],
      registry = (),
      prepared = []\<rparr>"

text \<open>A store holding three repositories.\<close>

definition threeRepos :: "unit Manifests" where
  "threeRepos =
     \<lparr>manifests = [(''x/r1'', Some 0), (''x/r2'', Some 1), (''x/r3'', Some 2)],
      objects = [[], [], []],
      registry = (),
      prepared = []\<rparr>"

section \<open>Properties\<close>

subsection \<open>Library functions and loops\<close>

lemma Split_not_Nil: "Split s sep \<noteq> []"
  by (induction s) (auto split: list.splits)

lemma HasPrefix_iff: "HasPrefix s p \<longleftrightarrow> (\<exists>suf. s = p @ suf)"
  by (induction s p rule: HasPrefix.induct) auto

lemma Contains_iff: "Contains s sub \<longleftrightarrow> (\<exists>pre suf. s = pre @ sub @ suf)"
proof (induction s)
  case Nil
  then show ?case by auto
next
  case (Cons c cs)
  show ?case
  proof
    assume "Contains (c # cs) sub"
    then consider "HasPrefix (c # cs) sub" | "Contains cs sub" by auto
    then show "\<exists>pre suf. c # cs = pre @ sub @ suf"
    proof cases
      case 1
      then obtain suf where "c # cs = sub @ suf" by (auto simp: HasPrefix_iff)
      then have "c # cs = [] @ sub @ suf" by simp
      then show ?thesis by blast
    next
      case 2
      then obtain pre suf where "cs = pre @ sub @ suf" using Cons.IH by blast
      then have "c # cs = (c # pre) @ sub @ suf" by simp
      then show ?thesis by blast
    qed
  next
    assume "\<exists>pre suf. c # cs = pre @ sub @ suf"
    then obtain pre suf where eq: "c # cs = pre @ sub @ suf" by blast
    show "Contains (c # cs) sub"
    proof (cases pre)
      case Nil
      then have "HasPrefix (c # cs) sub" using eq by (auto simp: HasPrefix_iff)
      then show ?thesis by simp
    next
      case (Cons a pre')
      then have "cs = pre' @ sub @ suf" using eq by simp
      then have "Contains cs sub" using Cons.IH by blast
      then show ?thesis by simp
    qed
  qed
qed

lemma catalogLoop_take:
  "catalogLoop n keys countRepos repos = repos @ take (nat (n - countRepos)) keys"
proof (induction keys arbitrary: countRepos repos)
  case Nil
  then show ?case by simp
next
  case (Cons key keys)
  show ?case
  proof (cases "countRepos \<ge> n")
    case True
    then show ?thesis by simp
  next
    case False
    then have "nat (n - countRepos) = Suc (nat (n - (countRepos + 1)))" by simp
    then show ?thesis using False Cons.IH by simp
  qed
qed




lemma Atoi_syntax: "Atoi s = (v, Some ErrSyntax) \<Longrightarrow> v = 0"
  by (auto simp: Atoi_def ParseInt_def Let_def split: if_splits option.splits)

lemma Atoi_range:
  "Atoi s = (v, Some ErrRange) \<Longrightarrow> v = (if hd s = CHR ''-'' then minInt else maxInt)"
  by (auto simp: Atoi_def ParseInt_def Let_def split: if_splits option.splits)

lemma Atoi_Nil: "Atoi [] = (0, Some ErrSyntax)"
  by (simp add: Atoi_def ParseInt_def)

text \<open>
  The order of the two errors: a byte that is no digit is a syntax error when the digits
  before it fit 64 bits, and is not read at all when they overflow.
\<close>

lemmas Atoi_defs =
  Atoi_def ParseInt_def ParseUint_def digit_def maxUint64_def maxInt_def minInt_def

lemma Atoi_letters: "Atoi ''abc'' = (0, Some ErrSyntax)"
  by (simp add: Atoi_defs)

lemma Atoi_digits_then_letter: "Atoi ''9223372036854775808x'' = (0, Some ErrSyntax)"
  by (simp add: Atoi_defs)

lemma Atoi_out_of_range: "Atoi ''9223372036854775808'' = (maxInt, Some ErrRange)"
  by (simp add: Atoi_defs)

lemma Atoi_overflow_then_letter: "Atoi ''99999999999999999999x'' = (maxInt, Some ErrRange)"
  by (simp add: Atoi_defs)

lemma Atoi_negative_overflow_then_letter:
  "Atoi ''-99999999999999999999x'' = (minInt, Some ErrRange)"
  by (simp add: Atoi_defs)

lemma Atoi_least: "Atoi ''-9223372036854775808'' = (minInt, None)"
  by (simp add: Atoi_defs)

lemma isManifest_pathParts:
  "isManifest req \<Longrightarrow> \<exists>target repo parts. pathParts (Path req) = Some (target, repo, parts)"
  by (auto simp: isManifest_def pathParts_def index_def subslice_def Let_def split: if_splits)

lemma isTags_pathParts:
  "isTags req \<Longrightarrow> \<exists>repo parts. tagsPathParts (Path req) = Some (repo, parts)"
  by (auto simp: isTags_def tagsPathParts_def index_def subslice_def Let_def split: if_splits)

lemma deref_prepared: "deref (m\<lparr>prepared := x\<rparr>) c = deref m c"
  by (simp add: deref_def split: option.splits)

subsection \<open>The tag listing steps\<close>



text \<open>
  The limit: an \<open>n\<close> that does not parse is a 400, a parsed \<open>n\<close> from 0 on keeps the
  first \<open>n\<close> tags (all of them when there are fewer), a negative one panics.
\<close>

lemma listTagsOf_limit:
  assumes "Get q ''n'' \<noteq> []"
  shows "listTagsOf L repo q c =
     (let tags = offsetTags (Get q ''last'') (sort (tagsLoop c []))
      in case Atoi (Get q ''n'') of
           (n, Some err) \<Rightarrow>
             Fail \<lparr>Status = 400, Code = ''BAD_REQUEST'',
                   Message = ''parsing n: '' @ NumErrorText L (Get q ''n'') err\<rparr>
         | (n, None) \<Rightarrow>
             if n < 0 then Panic else Done (respondTags L repo (take (nat n) tags)))"
  using assms
  by (auto simp: listTagsOf_def Let_def subslice_def split: prod.splits option.splits)



lemma listTagsOf_plain:
  assumes "Get q ''last'' = []" and "Get q ''n'' = []"
  shows "listTagsOf L repo q c = Done (respondTags L repo (sort (tagsLoop c [])))"
  using assms by (simp add: listTagsOf_def offsetTags_def)

lemma handleTags_run:
  assumes "tagsPathParts (Path req) = Some (repo, parts)"
    and "Method req = ''GET''"
    and "2 \<le> length parts"
    and "P (parts ! 0) (parts ! 1) [] m = (None, m1)"
    and "map_of (manifests m1) repo = Some c"
  shows "handleTags P L req m =
     (listTagsOf L repo (Query req) (deref m1 c),
      m1\<lparr>prepared := prepared m @ [(parts ! 0, parts ! 1, [])]\<rparr>)"
  using assms by (simp add: handleTags_def PrepareChart_def deref_prepared)

subsection \<open>The manifest handler on a repository that is absent\<close>

text \<open>
  The GET branch keeps the nil reference read before the Preparer ran: whatever the
  Preparer stores, both lookups miss, and after two successful calls the answer is 404.
\<close>

lemma handleGET_absent:
  assumes "map_of (manifests m) repo = None"
    and "2 \<le> length parts"
    and "P (parts ! 0) (parts ! 1) target m = (None, m1)"
    and "P (parts ! 0) (parts ! 1) target
           (m1\<lparr>prepared := prepared m @ [(parts ! 0, parts ! 1, target)]\<rparr>) = (None, m2)"
  shows "handleGET P L repo parts target m =
     (Fail notFound,
      m2\<lparr>prepared :=
            prepared m @ [(parts ! 0, parts ! 1, target), (parts ! 0, parts ! 1, target)]\<rparr>)"
  using assms
  by (simp add: handleGET_def getTarget_def PrepareChart_def lookup_def deref_def)

lemma handleGET_absent_never_Done:
  assumes "map_of (manifests m) repo = None"
  shows "fst (handleGET P L repo parts target m) \<noteq> Done r"
  using assms
  by (auto simp: handleGET_def getTarget_def lookup_def deref_def
           split: prod.splits option.splits)

text \<open>The HEAD branch reads the store again and serves what the Preparer stored.\<close>

lemma lookup2_prepared: "lookup2 (m\<lparr>prepared := x\<rparr>) repo target = lookup2 m repo target"
  by (simp add: lookup2_def lookup_def deref_prepared split: option.splits)

lemma handleHEAD_absent:
  assumes "map_of (manifests m) repo = None"
    and "2 \<le> length parts"
    and "P (parts ! 0) (parts ! 1) target m = (None, m1)"
    and "lookup2 m1 repo target = Some ma"
  shows "handleHEAD P L repo parts target m =
     (Done (respondHEAD L ma), m1\<lparr>prepared := prepared m @ [(parts ! 0, parts ! 1, target)]\<rparr>)"
  using assms
  by (simp add: handleHEAD_def headTarget_def PrepareChart_def lookup2_prepared)

text \<open>
  A repository name with a single component, for a repository that is absent: GET and
  HEAD of a manifest answer 400 and leave the store, and the log of Preparer calls, as
  they were.
\<close>

lemma handle_single_component:
  assumes "pathParts (Path req) = Some (target, repo, parts)"
    and "length parts < 2"
    and "map_of (manifests m) repo = None"
    and "Method req = ''GET'' \<or> Method req = ''HEAD''"
  shows "handle P L req m = (Fail invalidParams, m)"
  using assms by (auto simp: handle_def handleGET_def handleHEAD_def)

subsection \<open>Every served response\<close>

text \<open>
  Whenever the manifest handler returns nil, the response is the one computed from a
  manifest found by its last lookup: the digest of a GET is the digest of the body sent.
\<close>

lemma getTarget_Done:
  assumes "getTarget P L c parts target m = (Done r, m')"
  shows "\<exists>ma. r = respondGET L ma \<and> lookup m' c target = Some ma"
  using assms
  by (auto simp: getTarget_def split: option.splits if_splits prod.splits)

lemma headTarget_Done:
  assumes "headTarget P L repo parts target m = (Done r, m')"
  shows "\<exists>ma. r = respondHEAD L ma \<and> lookup2 m' repo target = Some ma"
  using assms
  by (auto simp: headTarget_def split: option.splits if_splits prod.splits)

lemma handle_Done:
  assumes "handle P L req m = (Done r, m')"
    and "pathParts (Path req) = Some (target, repo, parts)"
  shows "(Method req = ''GET'' \<and> (\<exists>ma. r = respondGET L ma))
       \<or> (Method req = ''HEAD'' \<and> (\<exists>ma. r = respondHEAD L ma \<and> lookup2 m' repo target = Some ma))"
  using assms
  by (auto simp: handle_def handleGET_def handleHEAD_def
           split: option.splits if_splits prod.splits
           dest: getTarget_Done headTarget_Done)

lemma respondGET_digest:
  "header (respondGET L ma) ''Docker-Content-Digest''
     = Some (''sha256:'' @ EncodeToString (Sum256 L (body (respondGET L ma))))"
  by (simp add: respondGET_def Let_def)

text \<open>The definitions unfolded to run a handler on a concrete request.\<close>

lemmas run_defs =
  handle_def pathParts_def tagsPathParts_def index_def subslice_def
  handleGET_def getTarget_def handleHEAD_def headTarget_def
  PrepareChart_def storingPreparer_def idlePreparer_def emptyStore_def
  lookup_def lookup2_def deref_def handleTags_def listTagsOf_def offsetTags_def
  Get_def handleCatalog_def catalogLimit_def chartStore_def threeRepos_def Let_def

section \<open>The claims\<close>

text \<open>
  Claim C1 (population, then serve, for GET): on a GET of a manifest whose repository is
  absent and whose name has two components, a Preparer that succeeds and stores the
  reference should lead to status 200 with the stored blob. The code does not do so.
  On the empty store, with a Preparer that stores the manifest under the reference asked
  for, GET \<^verbatim>\<open>/v2/ns/chart/manifests/1.0\<close> answers 404 NOT FOUND after two Preparer
  calls, although the store then holds the manifest under \<open>ns/chart\<close>, \<open>1.0\<close>.
\<close>

theorem get_absent_repository_not_served:
  "fst (handle (storingPreparer chart) testlib
          \<lparr>Method = ''GET'', Path = ''/v2/ns/chart/manifests/1.0'', Query = []\<rparr> emptyStore)
     = Fail notFound
   \<and> lookup2 (snd (handle (storingPreparer chart) testlib
          \<lparr>Method = ''GET'', Path = ''/v2/ns/chart/manifests/1.0'', Query = []\<rparr> emptyStore))
        ''ns/chart'' ''1.0'' = Some chart
   \<and> prepared (snd (handle (storingPreparer chart) testlib
          \<lparr>Method = ''GET'', Path = ''/v2/ns/chart/manifests/1.0'', Query = []\<rparr> emptyStore))
     = [(''ns'', ''chart'', ''1.0''), (''ns'', ''chart'', ''1.0'')]"
  by (simp add: run_defs)

text \<open>
  Claim C2 (GET and HEAD agree but for the body): the two branches should give the same
  status, error, headers and store changes. They do not: on the empty store, with the
  same storing Preparer and the same path, HEAD answers 200 after one Preparer call and
  GET answers 404 after two.
\<close>

theorem get_and_head_differ:
  "handle (storingPreparer chart) testlib
     \<lparr>Method = ''HEAD'', Path = ''/v2/ns/chart/manifests/1.0'', Query = []\<rparr> emptyStore
     = (Done (respondHEAD testlib chart),
        \<lparr>manifests = [(''ns/chart'', Some 0)], objects = [[(''1.0'', chart)]], registry = (),
         prepared = [(''ns'', ''chart'', ''1.0'')]\<rparr>)
   \<and> handle (storingPreparer chart) testlib
     \<lparr>Method = ''GET'', Path = ''/v2/ns/chart/manifests/1.0'', Query = []\<rparr> emptyStore
     = (Fail notFound,
        \<lparr>manifests = [(''ns/chart'', Some 0)], objects = [[(''1.0'', chart)]], registry = (),
         prepared = [(''ns'', ''chart'', ''1.0''), (''ns'', ''chart'', ''1.0'')]\<rparr>)"
  by (simp add: run_defs)

text \<open>
  Claim C3 (a repository name with fewer than two components is a 400, with no Preparer
  call): the manifest handler does so (\<open>handle_single_component\<close>); the tag listing
  handler does not. GET \<^verbatim>\<open>/v2/foo/tags/list\<close> panics at \<^verbatim>\<open>hostnameParts[1]\<close>, for
  every Preparer, query and store: no 400 is returned (and no Preparer call is made).
\<close>

theorem tags_single_component_panics:
  "handleTags P L \<lparr>Method = ''GET'', Path = ''/v2/foo/tags/list'', Query = q\<rparr> m = (Panic, m)"
  by (simp add: handleTags_def tagsPathParts_def subslice_def Let_def)

text \<open>
  Claim C4 (the catalog cap), as stated: an \<open>n\<close> that does not parse counts as 10000.
  It does not: \<^verbatim>\<open>Atoi\<close> returns 0 with its error, the error is dropped and 0 is the
  cap. With three repositories stored and \<open>n=abc\<close>, no name is listed.
\<close>

theorem catalog_unparsable_n_lists_nothing:
  "snd (Atoi ''abc'') = Some ErrSyntax
   \<and> map fst (manifests threeRepos) = [''x/r1'', ''x/r2'', ''x/r3'']
   \<and> handleCatalog testlib
        \<lparr>Method = ''GET'', Path = ''/v2/_catalog'', Query = [(''n'', ''abc'')]\<rparr> threeRepos
      = (Done (respondCatalog testlib []), threeRepos)"
  by (simp add: handleCatalog_def catalogLimit_def Get_def Atoi_def digit_def threeRepos_def)

text \<open>
  Claim C4, amended: every GET of the catalog answers 200 with the first \<open>n_eff\<close> names
  of the store in the order of the range (all of them when fewer are stored, none when
  \<open>n_eff\<close> is 0 or negative), and leaves the store as it was. \<open>n_eff\<close> is 10000 when
  \<open>n\<close> is absent or empty; otherwise it is the value \<^verbatim>\<open>Atoi\<close> returns, its error
  dropped: the parsed value when \<open>n\<close> parses, 0 on a syntax error, and the nearest
  64-bit bound on a range error. \<^verbatim>\<open>Atoi\<close> reports the range error for a literal out of
  range and also as soon as the leading digits overflow 64 bits, before a later byte that
  is no digit is read (\<open>Atoi_overflow_then_letter\<close>); a byte that is no digit met
  before that is the syntax error. No parse failure is reported.
\<close>

theorem catalog_lists_first_n:
  assumes "Method req = ''GET''"
  shows "handleCatalog L req m =
      (let nStr = Get (Query req) ''n'';
           n_eff = (if nStr = [] then 10000
                    else (case Atoi nStr of
                            (v, None) \<Rightarrow> v
                          | (v, Some ErrSyntax) \<Rightarrow> 0
                          | (v, Some ErrRange) \<Rightarrow>
                              if hd nStr = CHR ''-'' then minInt else maxInt));
           repos = take (nat n_eff) (map fst (manifests m))
       in (Done \<lparr>header = [''Content-Length'' \<mapsto>
                            Sprint (length (MarshalCatalog L \<lparr>Repos = repos\<rparr>))],
                 statusCode = Some 200,
                 body = MarshalCatalog L \<lparr>Repos = repos\<rparr>\<rparr>, m))"
proof -
  let ?nStr = "Get (Query req) ''n''"
  have "catalogLimit req =
          (if ?nStr = [] then 10000
           else (case Atoi ?nStr of
                   (v, None) \<Rightarrow> v
                 | (v, Some ErrSyntax) \<Rightarrow> 0
                 | (v, Some ErrRange) \<Rightarrow> if hd ?nStr = CHR ''-'' then minInt else maxInt))"
  proof (cases "Atoi ?nStr")
    case (Pair v e)
    then show ?thesis
      by (cases e)
        (auto simp: catalogLimit_def Let_def dest: Atoi_syntax Atoi_range
              split: NumError.splits)
  qed
  then show ?thesis using assms
    by (simp add: handleCatalog_def respondCatalog_def Let_def catalogLoop_take)
qed

theorem catalog_lists_first_n_witness:
  "handleCatalog testlib
     \<lparr>Method = ''GET'', Path = ''/v2/_catalog'', Query = [(''n'', ''2'')]\<rparr> threeRepos
     = (Done (respondCatalog testlib [''x/r1'', ''x/r2'']), threeRepos)
   \<and> handleCatalog testlib
     \<lparr>Method = ''GET'', Path = ''/v2/_catalog'',
      Query = [(''n'', ''99999999999999999999x'')]\<rparr> threeRepos
     = (Done (respondCatalog testlib [''x/r1'', ''x/r2'', ''x/r3'']), threeRepos)"
proof -
  have a: "Atoi ''2'' = (2, None)" by (simp add: Atoi_defs)
  have 1: "handleCatalog testlib
     \<lparr>Method = ''GET'', Path = ''/v2/_catalog'', Query = [(''n'', ''2'')]\<rparr> threeRepos
     = (Done (respondCatalog testlib [''x/r1'', ''x/r2'']), threeRepos)"
    using catalog_lists_first_n
      [of "\<lparr>Method = ''GET'', Path = ''/v2/_catalog'', Query = [(''n'', ''2'')]\<rparr>"
                 testlib threeRepos] a
    by (simp add: Get_def respondCatalog_def Let_def threeRepos_def)
  have 2: "handleCatalog testlib
     \<lparr>Method = ''GET'', Path = ''/v2/_catalog'',
      Query = [(''n'', ''99999999999999999999x'')]\<rparr> threeRepos
     = (Done (respondCatalog testlib [''x/r1'', ''x/r2'', ''x/r3'']), threeRepos)"
    using catalog_lists_first_n
      [of "\<lparr>Method = ''GET'', Path = ''/v2/_catalog'',
                   Query = [(''n'', ''99999999999999999999x'')]\<rparr>" testlib threeRepos]
      Atoi_overflow_then_letter
    by (simp add: Get_def respondCatalog_def Let_def threeRepos_def maxInt_def)
  from 1 2 show ?thesis by simp
qed

text \<open>
  Claim C5 (the \<open>last\<close> cursor): the tags returned should be those from the first tag
  greater than \<open>last\<close> on, and none when no tag is greater. When some tag is greater the
  code does so (\<open>offsetTags_some\<close>); when none is, it returns every tag
  (\<open>offsetTags_none\<close>). With the tags \<open>a\<close> and \<open>b\<close> stored and \<open>last=z\<close>, both are
  returned.
\<close>

theorem tags_last_beyond_every_tag:
  "\<not> ''a'' > ''z'' \<and> \<not> ''b'' > ''z''
   \<and> fst (handleTags idlePreparer testlib
        \<lparr>Method = ''GET'', Path = ''/v2/ns/chart/tags/list'', Query = [(''last'', ''z'')]\<rparr>
        chartStore)
     = Done (respondTags testlib ''ns/chart'' [''a'', ''b''])"
  by (simp add: run_defs)

text \<open>
  Claim C6 (the limit \<open>n\<close>): an \<open>n\<close> that does not parse is a 400, a parsed \<open>n\<close> below
  the length truncates to the first \<open>n\<close> tags, and \<open>n\<close> never extends the sequence. From
  0 on the code does so (\<open>listTagsOf_limit\<close>); a negative \<open>n\<close> parses, is below the
  length, and the handler panics instead of truncating. With \<open>n=-1\<close>:
\<close>

theorem tags_minus_one_panics:
  "Atoi ''-1'' = (- 1, None)
   \<and> fst (handleTags idlePreparer testlib
        \<lparr>Method = ''GET'', Path = ''/v2/ns/chart/tags/list'', Query = [(''n'', ''-1'')]\<rparr>
        chartStore)
     = Panic"
  by (simp add: run_defs Atoi_def digit_def minInt_def)

text \<open>
  Claim C7 (the digest): a GET or HEAD of a manifest that the store holds, with blob \<open>b\<close>,
  answers 200 with Docker-Content-Digest \<open>sha256:\<close> followed by the hexadecimal SHA-256
  of \<open>b\<close>, with the content type and the length of \<open>b\<close>, and with \<open>b\<close> as the body of a
  GET; the store is left as it was, so the same request gives the same answer again.
\<close>

theorem stored_manifest_digest:
  assumes "pathParts (Path req) = Some (target, repo, parts)"
    and "lookup2 m repo target = Some ma"
    and "Method req = ''GET'' \<or> Method req = ''HEAD''"
  shows "\<exists>r. handle P L req m = (Done r, m)
       \<and> header r ''Docker-Content-Digest''
           = Some (''sha256:'' @ EncodeToString (Sum256 L (Blob ma)))
       \<and> header r ''Content-Type'' = Some (ContentType ma)
       \<and> header r ''Content-Length'' = Some (Sprint (length (Blob ma)))
       \<and> statusCode r = Some 200
       \<and> body r = (if Method req = ''GET'' then Blob ma else [])
       \<and> handle P L req (snd (handle P L req m)) = handle P L req m"
proof -
  obtain c where c: "map_of (manifests m) repo = Some c" and ma: "lookup m c target = Some ma"
    using assms(2) by (auto simp: lookup2_def split: option.splits)
  from assms(3) show ?thesis
  proof
    assume g: "Method req = ''GET''"
    then have "handle P L req m = (Done (respondGET L ma), m)"
      using assms(1) c ma by (simp add: handle_def handleGET_def getTarget_def)
    then show ?thesis using g by (simp add: respondGET_def Let_def)
  next
    assume h: "Method req = ''HEAD''"
    then have "handle P L req m = (Done (respondHEAD L ma), m)"
      using assms(1,2) c by (simp add: handle_def handleHEAD_def headTarget_def)
    then show ?thesis using h by (simp add: respondHEAD_def Let_def)
  qed
qed

theorem stored_manifest_digest_witness:
  "pathParts ''/v2/ns/chart/manifests/a'' = Some (''a'', ''ns/chart'', [''ns'', ''chart''])
   \<and> lookup2 chartStore ''ns/chart'' ''a'' = Some chart
   \<and> (\<exists>r. handle idlePreparer testlib
             \<lparr>Method = ''GET'', Path = ''/v2/ns/chart/manifests/a'', Query = []\<rparr> chartStore
             = (Done r, chartStore)
          \<and> header r ''Docker-Content-Digest'' = Some ''sha256:03''
          \<and> body r = [1, 2, 3])"
proof -
  have p: "pathParts (Path \<lparr>Method = ''GET'', Path = ''/v2/ns/chart/manifests/a'', Query = []\<rparr>)
             = Some (''a'', ''ns/chart'', [''ns'', ''chart''])"
    by (simp add: pathParts_def index_def subslice_def)
  have l: "lookup2 chartStore ''ns/chart'' ''a'' = Some chart"
    by (simp add: lookup2_def lookup_def deref_def chartStore_def)
  have g: "Method \<lparr>Method = ''GET'', Path = ''/v2/ns/chart/manifests/a'', Query = []\<rparr> = ''GET''
         \<or> Method \<lparr>Method = ''GET'', Path = ''/v2/ns/chart/manifests/a'', Query = []\<rparr> = ''HEAD''"
    by simp
  from stored_manifest_digest [OF p l g, of idlePreparer testlib] obtain r where
    r: "handle idlePreparer testlib
          \<lparr>Method = ''GET'', Path = ''/v2/ns/chart/manifests/a'', Query = []\<rparr> chartStore
          = (Done r, chartStore)"
    and d: "header r ''Docker-Content-Digest''
          = Some (''sha256:'' @ EncodeToString (Sum256 testlib (Blob chart)))"
    and b: "body r = Blob chart"
    by auto
  have "''sha256:'' @ EncodeToString (Sum256 testlib (Blob chart)) = ''sha256:03''"
    by (simp add: testlib_def chart_def hexdigit_def)
  with d have d': "header r ''Docker-Content-Digest'' = Some ''sha256:03''" by simp
  have b': "body r = [1, 2, 3]" using b by (simp add: chart_def)
  from r d' b' have "\<exists>r. handle idlePreparer testlib
             \<lparr>Method = ''GET'', Path = ''/v2/ns/chart/manifests/a'', Query = []\<rparr> chartStore
             = (Done r, chartStore)
          \<and> header r ''Docker-Content-Digest'' = Some ''sha256:03''
          \<and> body r = [1, 2, 3]" by blast
  then show ?thesis using p l by simp
qed



text \<open>
  Claim C9 (other methods): a request on a manifest path with a method other than GET
  and HEAD, and a request on a tags path or on the catalog with a method other than GET,
  are answered 400 METHOD_UNKNOWN; the store and the log of Preparer calls are as they
  were.
\<close>

theorem unknown_method_rejected:
  assumes "isManifest req1" and "Method req1 \<noteq> ''GET''" and "Method req1 \<noteq> ''HEAD''"
    and "isTags req2" and "Method req2 \<noteq> ''GET''"
    and "Method req3 \<noteq> ''GET''"
  shows "handle P L req1 m = (Fail methodUnknown, m)
       \<and> handleTags P L req2 m = (Fail methodUnknown, m)
       \<and> handleCatalog L req3 m = (Fail methodUnknown, m)"
proof -
  obtain target repo parts where "pathParts (Path req1) = Some (target, repo, parts)"
    using isManifest_pathParts [OF assms(1)] by blast
  then have 1: "handle P L req1 m = (Fail methodUnknown, m)"
    using assms(2,3) by (simp add: handle_def)
  obtain repo2 parts2 where "tagsPathParts (Path req2) = Some (repo2, parts2)"
    using isTags_pathParts [OF assms(4)] by blast
  then have 2: "handleTags P L req2 m = (Fail methodUnknown, m)"
    using assms(5) by (simp add: handleTags_def)
  have 3: "handleCatalog L req3 m = (Fail methodUnknown, m)"
    using assms(6) by (simp add: handleCatalog_def Let_def)
  from 1 2 3 show ?thesis by simp
qed

theorem unknown_method_rejected_witness:
  "handle idlePreparer testlib
     \<lparr>Method = ''DELETE'', Path = ''/v2/ns/chart/manifests/1.0'', Query = []\<rparr> chartStore
     = (Fail methodUnknown, chartStore)
   \<and> handleTags idlePreparer testlib
     \<lparr>Method = ''DELETE'', Path = ''/v2/ns/chart/tags/list'', Query = []\<rparr> chartStore
     = (Fail methodUnknown, chartStore)
   \<and> handleCatalog testlib
     \<lparr>Method = ''DELETE'', Path = ''/v2/_catalog'', Query = []\<rparr> chartStore
     = (Fail methodUnknown, chartStore)"
proof -
  have a: "isManifest \<lparr>Method = ''DELETE'', Path = ''/v2/ns/chart/manifests/1.0'', Query = []\<rparr>"
    by (simp add: isManifest_def)
  have b: "isTags \<lparr>Method = ''DELETE'', Path = ''/v2/ns/chart/tags/list'', Query = []\<rparr>"
    by (simp add: isTags_def)
  show ?thesis
    using unknown_method_rejected
      [OF a _ _ b, of "\<lparr>Method = ''DELETE'', Path = ''/v2/_catalog'', Query = []\<rparr>"
          idlePreparer testlib chartStore]
    by simp
qed

text \<open>
  Claim C10 (a negative \<open>n\<close>): on a GET of the tags of a repository that the store holds
  once the Preparer has run, an \<open>n\<close> that parses to a negative integer is below the
  length of the tag sequence, the slice \<^verbatim>\<open>tags[:n]\<close> is out of range, and the handler
  panics: it returns no response.
\<close>

theorem tags_negative_n_panics:
  assumes "tagsPathParts (Path req) = Some (repo, parts)"
    and "Method req = ''GET''"
    and "2 \<le> length parts"
    and "P (parts ! 0) (parts ! 1) [] m = (None, m1)"
    and "map_of (manifests m1) repo = Some c"
    and "Atoi (Get (Query req) ''n'') = (n, None)"
    and "n < 0"
  shows "fst (handleTags P L req m) = Panic"
proof -
  have "Get (Query req) ''n'' \<noteq> []"
    using assms(6) by (auto simp: Atoi_Nil)
  from listTagsOf_limit [OF this] assms(6,7)
  have "listTagsOf L repo (Query req) (deref m1 c) = Panic"
    by (simp add: Let_def)
  then show ?thesis
    using handleTags_run [where L = L and P = P and m = m, OF assms(1-5)] by simp
qed

theorem tags_negative_n_panics_witness:
  "Atoi ''-5'' = (- 5, None)
   \<and> fst (handleTags idlePreparer testlib
        \<lparr>Method = ''GET'', Path = ''/v2/ns/chart/tags/list'', Query = [(''n'', ''-5'')]\<rparr>
        chartStore)
     = Panic"
proof -
  have p: "tagsPathParts
             (Path \<lparr>Method = ''GET'', Path = ''/v2/ns/chart/tags/list'',
                    Query = [(''n'', ''-5'')]\<rparr>)
             = Some (''ns/chart'', [''ns'', ''chart''])"
    by (simp add: tagsPathParts_def subslice_def)
  have a: "Atoi ''-5'' = (- 5, None)"
    by (simp add: Atoi_def digit_def minInt_def)
  show ?thesis
    using tags_negative_n_panics
      [where req = "\<lparr>Method = ''GET'', Path = ''/v2/ns/chart/tags/list'',
                      Query = [(''n'', ''-5'')]\<rparr>"
         and P = idlePreparer and L = testlib and m = chartStore and ?m1.0 = chartStore
         and c = "Some 0" and n = "- 5", OF p] a
    by (simp add: idlePreparer_def chartStore_def Get_def)
qed

end
